theory Spec2Isabelle
  imports Complex_Main
begin

section \<open>JavaScript values used by the views\<close>

text \<open>
  Strings are modelled as lists of 7-bit ASCII characters: \<open>charAt\<close>, \<open>toUpperCase\<close>,
  \<open>trim\<close>, \<open>padStart\<close> and \<open>toString\<close> below are the JavaScript string methods on such
  strings. Code units above 127 (where \<open>toUpperCase\<close> and \<open>trim\<close> follow the Unicode
  tables) are outside the model. A field that may be \<open>undefined\<close> or \<open>null\<close> is an
  \<open>option\<close>. Numbers that count (score, XP, rubric score) are integers.
\<close>

datatype js_error = TypeError | RequestFailed string

text \<open>\<open>s.charAt(i)\<close>: the one-character string at index \<open>i\<close>, the empty string out of range.\<close>

definition charAt :: "string \<Rightarrow> nat \<Rightarrow> string" where
  "charAt s i = (if i < length s then [s ! i] else [])"

definition upper_char :: "char \<Rightarrow> char" where
  "upper_char c =
     (let n = (of_char c :: nat)
      in if 97 \<le> n \<and> n \<le> 122 then char_of (n - 32) else c)"

definition toUpperCase :: "string \<Rightarrow> string" where
  "toUpperCase s = map upper_char s"

text \<open>White space of \<open>String.prototype.trim\<close> in the ASCII range: TAB, LF, VT, FF, CR, SP.\<close>

definition is_ws :: "char \<Rightarrow> bool" where
  "is_ws c = (let n = (of_char c :: nat) in (9 \<le> n \<and> n \<le> 13) \<or> n = 32)"

definition trim :: "string \<Rightarrow> string" where
  "trim s = rev (dropWhile is_ws (rev (dropWhile is_ws s)))"

text \<open>\<open>xs.slice(start)\<close> with one argument: a negative start counts from the end.\<close>

definition slice_from :: "int \<Rightarrow> 'a list \<Rightarrow> 'a list" where
  "slice_from start xs =
     (let len = int (length xs);
          k = (if start < 0 then max (len + start) 0 else min start len)
      in drop (nat k) xs)"

section \<open>GameView.jsx\<close>

record question =
  qtype :: "string option"
  question :: "string option"
  options :: "string list option"
  correct :: "string option"
  difficulty :: "string option"
  explanation :: "string option"

text \<open>The body of a \<open>POST /game/grade\<close> response, and the fallback object of the catch block.\<close>

record grade_result =
  score_of :: "int option"
  feedback :: "string option"
  xp_earned :: "int option"

record grade_request =
  req_question :: "string option"
  req_correct_answer :: "string option"
  req_user_answer :: string
  req_difficulty :: "string option"

record game_state =
  questions :: "question list"
  loading :: bool
  error :: "string option"
  currentQ :: nat
  selectedAnswer :: "string option"
  showResult :: bool
  isCorrect :: bool
  openAnswer :: string
  grading :: bool
  gradeFeedback :: "grade_result option"
  score :: int
  xp :: int
  gameComplete :: bool

text \<open>
  A handler either runs to its end, or throws after the state updates it had already
  queued (React applies the updates queued before the throw).
\<close>

datatype 'a outcome = Done 'a | Threw js_error 'a

text \<open>\<open>const currentQuestion = questions[currentQ]\<close>: \<open>undefined\<close> out of range.\<close>

definition currentQuestion :: "game_state \<Rightarrow> question option" where
  "currentQuestion st =
     (if currentQ st < length (questions st) then Some (questions st ! currentQ st) else None)"

text \<open>Line 47: \<open>currentQuestion.correct?.charAt(0)?.toUpperCase() === letter\<close>.\<close>

definition mcq_correct :: "question \<Rightarrow> string \<Rightarrow> bool" where
  "mcq_correct q option =
     (let letter = toUpperCase (charAt option 0)
      in case correct q of
           None \<Rightarrow> False
         | Some c \<Rightarrow> toUpperCase (charAt c 0) = letter)"

text \<open>Line 51: \<open>currentQuestion.difficulty === 'easy' ? 10 : 20\<close>.\<close>

definition mcq_points :: "question \<Rightarrow> int" where
  "mcq_points q = (if difficulty q = Some ''easy'' then 10 else 20)"

definition handleMCQSelect :: "string \<Rightarrow> game_state \<Rightarrow> game_state outcome" where
  "handleMCQSelect option st =
     (if showResult st then Done st
      else
        let st1 = st\<lparr>selectedAnswer := Some option\<rparr>
        in case currentQuestion st of
             None \<Rightarrow> Threw TypeError st1
           | Some q \<Rightarrow>
               let correct = mcq_correct q option;
                   st2 = st1\<lparr>isCorrect := correct, showResult := True\<rparr>
               in if correct
                  then Done (st2\<lparr>score := score st2 + 1, xp := xp st2 + mcq_points q\<rparr>)
                  else Done st2)"

text \<open>
  \<open>handleOpenSubmit\<close> awaits \<open>gradeAnswer\<close>. The argument \<open>resp\<close> is what that call
  settles with when it is made: a rejection, or the response body (\<open>None\<close> for a
  \<open>null\<close> body). The result is the outcome of the handler, with the state it leaves,
  and the list of grading requests it issued. Events that arrive while the call is in
  flight are not modelled.
\<close>

definition grade_fallback :: grade_result where
  "grade_fallback =
     \<lparr>score_of = Some 0, feedback = Some ''Error grading answer.'', xp_earned = Some 0\<rparr>"

text \<open>The catch block followed by the finally block (lines 72, 73 and 75).\<close>

definition grade_failed :: "game_state \<Rightarrow> game_state" where
  "grade_failed st =
     st\<lparr>gradeFeedback := Some grade_fallback, showResult := True, grading := False\<rparr>"

text \<open>\<open>result.xp_earned || 0\<close>: a missing or zero value counts as 0.\<close>

definition xp_or_zero :: "grade_result \<Rightarrow> int" where
  "xp_or_zero result = (case xp_earned result of None \<Rightarrow> 0 | Some n \<Rightarrow> if n = 0 then 0 else n)"

text \<open>\<open>result.score >= 2\<close>: false when the score is missing.\<close>

definition score_passes :: "grade_result \<Rightarrow> bool" where
  "score_passes result = (case score_of result of None \<Rightarrow> False | Some sc \<Rightarrow> sc \<ge> 2)"

text \<open>Lines 67 to 70 and the finally block, for a response body that is an object.\<close>

definition grade_received :: "grade_result \<Rightarrow> game_state \<Rightarrow> game_state" where
  "grade_received result st =
     (let st2 = st\<lparr>gradeFeedback := Some result, showResult := True\<rparr>;
          st3 = st2\<lparr>xp := xp st2 + xp_or_zero result\<rparr>;
          st4 = (if score_passes result then st3\<lparr>score := score st3 + 1\<rparr> else st3)
      in st4\<lparr>grading := False\<rparr>)"

definition grade_request_of :: "question \<Rightarrow> string \<Rightarrow> grade_request" where
  "grade_request_of q answer =
     \<lparr>req_question = question q, req_correct_answer = correct q,
      req_user_answer = answer, req_difficulty = difficulty q\<rparr>"

text \<open>
  An undefined current question makes \<open>currentQuestion.question\<close> throw inside the try
  block before any request is made, and the catch block runs. A \<open>null\<close> response body
  makes \<open>result.score\<close> (line 70) throw after the updates of lines 67 to 69 are queued, and
  the catch block runs; but the XP updater queued at line 69 dereferences the
  \<open>null\<close> body when the view next renders, so that render throws and the error boundary
  replaces the view. The state carried by \<open>Threw\<close> is that of the other queued updates.
\<close>

definition handleOpenSubmit ::
  "js_error + grade_result option \<Rightarrow> game_state \<Rightarrow> game_state outcome \<times> grade_request list" where
  "handleOpenSubmit resp st =
     (if trim (openAnswer st) = [] \<or> grading st then (Done st, [])
      else
        let st1 = st\<lparr>grading := True\<rparr>
        in (case currentQuestion st of
              None \<Rightarrow> (Done (grade_failed st1), [])
            | Some q \<Rightarrow>
                (case resp of
                   Inl e \<Rightarrow> (Done (grade_failed st1), [grade_request_of q (openAnswer st)])
                 | Inr body \<Rightarrow>
                     (case body of
                        None \<Rightarrow>
                          (Threw TypeError
                             (grade_failed (st1\<lparr>gradeFeedback := None, showResult := True\<rparr>)),
                           [grade_request_of q (openAnswer st)])
                      | Some result \<Rightarrow>
                          (Done (grade_received result st1),
                           [grade_request_of q (openAnswer st)])))))"

definition handleNext :: "game_state \<Rightarrow> game_state" where
  "handleNext st =
     (if int (currentQ st) + 1 \<ge> int (length (questions st))
      then st\<lparr>gameComplete := True\<rparr>
      else st\<lparr>currentQ := currentQ st + 1, selectedAnswer := None, showResult := False,
              isCorrect := False, openAnswer := [], gradeFeedback := None\<rparr>)"


text \<open>
  \<open>fetchQuestions\<close> (lines 22 to 36). The argument is what \<open>getQuestions\<close> settles with.
  In the body, \<open>body_questions\<close> is \<open>None\<close> when \<open>questions\<close> is missing, falsy or not
  an array.
\<close>

record questions_body =
  body_questions :: "question list option"

definition fetchQuestions :: "js_error + questions_body option \<Rightarrow> game_state \<Rightarrow> game_state" where
  "fetchQuestions resp st =
     (case resp of
        Inl e \<Rightarrow>
          st\<lparr>error := Some ''Failed to load quiz questions. Try again later.'', loading := False\<rparr>
      | Inr data \<Rightarrow>
          (case (case data of None \<Rightarrow> None | Some d \<Rightarrow> body_questions d) of
             Some qs \<Rightarrow> st\<lparr>questions := qs, loading := False\<rparr>
           | None \<Rightarrow>
               st\<lparr>error := Some ''Failed to load questions. Unexpected format.'',
                  loading := False\<rparr>))"

text \<open>
  The controls of the quiz view. The loading screen, the error screen (\<open>error\<close> truthy)
  and the completion screen carry no quiz control. Otherwise the view dereferences the
  current question, and renders: for a question of type \<open>mcq\<close> with a non-empty options
  list, one button per option, disabled while \<open>showResult\<close> (lines 223 to 248); for any
  other question, a text area, disabled while \<open>showResult\<close>, and a submit button that is
  rendered only while \<open>showResult\<close> is false (line 260) and disabled by the expression of
  line 263; and, once \<open>showResult\<close>, the button calling \<open>handleNext\<close> (lines 273 to 303).
\<close>

definition error_shown :: "game_state \<Rightarrow> bool" where
  "error_shown st = (case error st of None \<Rightarrow> False | Some m \<Rightarrow> m \<noteq> [])"

definition mcq_rendered :: "question \<Rightarrow> bool" where
  "mcq_rendered q =
     (qtype q = Some ''mcq'' \<and> (case options q of None \<Rightarrow> False | Some os \<Rightarrow> length os > 0))"

text \<open>Line 263: \<open>disabled={!openAnswer.trim() || grading}\<close>.\<close>

definition submit_disabled :: "game_state \<Rightarrow> bool" where
  "submit_disabled st = (trim (openAnswer st) = [] \<or> grading st)"

text \<open>
  What the user can do in the quiz view: press an option button, type into the text area,
  press the submit button (the argument is what the grading call settles with), press
  the next button.
\<close>

datatype event =
  SelectOption string
| TypeAnswer string
| SubmitAnswer "js_error + grade_result option"
| NextQuestion

definition enabled :: "game_state \<Rightarrow> event \<Rightarrow> bool" where
  "enabled st ev =
     (\<not> loading st \<and> \<not> error_shown st \<and> \<not> gameComplete st \<and>
      (case currentQuestion st of
         None \<Rightarrow> False
       | Some q \<Rightarrow>
           (case ev of
              SelectOption opt \<Rightarrow>
                mcq_rendered q \<and> \<not> showResult st \<and>
                (case options q of None \<Rightarrow> False | Some os \<Rightarrow> opt \<in> set os)
            | TypeAnswer v \<Rightarrow> \<not> mcq_rendered q \<and> \<not> showResult st
            | SubmitAnswer r \<Rightarrow> \<not> mcq_rendered q \<and> \<not> showResult st \<and> \<not> submit_disabled st
            | NextQuestion \<Rightarrow> showResult st)))"

text \<open>
  One user event: the handler of the control runs if the control is rendered and enabled,
  and nothing happens otherwise. A submit is taken as one step, from the press to the
  settled grading call.
\<close>

definition user_event :: "event \<Rightarrow> game_state \<Rightarrow> game_state outcome" where
  "user_event ev st =
     (if enabled st ev
      then (case ev of
              SelectOption opt \<Rightarrow> handleMCQSelect opt st
            | TypeAnswer v \<Rightarrow> Done (st\<lparr>openAnswer := v\<rparr>)
            | SubmitAnswer r \<Rightarrow> fst (handleOpenSubmit r st)
            | NextQuestion \<Rightarrow> Done (handleNext st))
      else Done st)"

text \<open>
  The number of steps, in a sequence of user events from \<open>st\<close>, that change the score or
  the XP while question \<open>i\<close> is the current one. The sequence ends when the view is
  replaced after a throw.
\<close>

fun contributions :: "nat \<Rightarrow> event list \<Rightarrow> game_state \<Rightarrow> nat" where
  "contributions i [] st = 0"
| "contributions i (ev # evs) st =
     (case user_event ev st of
        Threw e s \<Rightarrow> 0
      | Done st' \<Rightarrow>
          (if currentQ st = i \<and> (score st', xp st') \<noteq> (score st, xp st) then 1 else 0) +
          contributions i evs st')"

section \<open>The chat view\<close>

record source =
  source_text :: "string option"
  source_start_time :: "real option"

record turn =
  role :: string
  content :: "string option"

record message = turn +
  sources :: "source list option"

record chat_response =
  answer :: "string option"
  response_sources :: "source list option"

record chat_request =
  video_id :: string
  request_message :: string
  history :: "turn list"

record chat_state =
  messages :: "message list"
  input :: string
  chat_loading :: bool
  currentSources :: "source list"

text \<open>The catch block followed by the finally block (lines 60 and 62).\<close>

definition chat_failed :: "chat_state \<Rightarrow> chat_state" where
  "chat_failed st =
     st\<lparr>messages := messages st @
            [\<lparr>role = ''assistant'',
              content = Some ''Sorry, I encountered an error. Please try again.'',
              sources = None\<rparr>],
        chat_loading := False\<rparr>"

text \<open>Lines 48 to 57 and the finally block, for a response body that is an object.\<close>

definition chat_received :: "chat_response \<Rightarrow> chat_state \<Rightarrow> chat_state" where
  "chat_received response st =
     (let aiMsg = \<lparr>role = ''assistant'', content = answer response,
                   sources = response_sources response\<rparr>;
          st2 = st\<lparr>messages := messages st @ [aiMsg]\<rparr>;
          st3 = (case response_sources response of
                   None \<Rightarrow> st2
                 | Some ss \<Rightarrow> st2\<lparr>currentSources := ss\<rparr>)
      in st3\<lparr>chat_loading := False\<rparr>)"

text \<open>
  \<open>handleSend\<close> (lines 32 to 64). \<open>messages\<close> inside the handler is the list the
  component held when the handler was created, so the history is taken from the list
  before the new user message is appended. The result is the final state and the list of
  chat requests issued; \<open>resp\<close> is what \<open>sendChat\<close> settles with (\<open>None\<close> for a
  \<open>null\<close> body, on which \<open>response.answer\<close> throws into the catch block).
\<close>

definition handleSend ::
  "js_error + chat_response option \<Rightarrow> string \<Rightarrow> chat_state \<Rightarrow> chat_state \<times> chat_request list" where
  "handleSend resp videoId st =
     (if trim (input st) = [] \<or> chat_loading st then (st, [])
      else
        let userMsg = \<lparr>role = ''user'', content = Some (input st), sources = None\<rparr>;
            st1 = st\<lparr>messages := messages st @ [userMsg], input := [],
                     chat_loading := True, currentSources := []\<rparr>;
            hist = map (\<lambda>m. \<lparr>role = role m, content = content m\<rparr>)
                       (slice_from (- 6) (messages st));
            req = \<lparr>video_id = videoId, request_message = input st, history = hist\<rparr>
        in (case resp of
              Inl e \<Rightarrow> (chat_failed st1, [req])
            | Inr body \<Rightarrow>
                (case body of
                   None \<Rightarrow> (chat_failed st1, [req])
                 | Some response \<Rightarrow> (chat_received response st1, [req]))))"

section \<open>SummaryView.jsx\<close>

record deep_concept =
  concept_name :: "string option"
  concept_explanation :: "string option"
  concept_start_time :: "real option"

text \<open>
  The body of a \<open>GET /video/{id}/summary\<close> response. A list field is \<open>None\<close> when it is
  missing or not an array.
\<close>

record summary_body =
  body_overview :: "string option"
  body_deep_concepts :: "deep_concept list option"
  body_actionable_takeaways :: "string list option"

record summary =
  overview :: string
  deep_concepts :: "deep_concept list"
  actionable_takeaways :: "string list"

record summary_state =
  activeTab :: string
  summaryData :: "summary option"
  summary_loading :: bool
  summary_error :: "string option"
  copied :: bool

text \<open>\<open>data?.overview || "No overview available."\<close>: a missing or empty string is falsy.\<close>

definition overview_or_default :: "summary_body option \<Rightarrow> string" where
  "overview_or_default data =
     (case (case data of None \<Rightarrow> None | Some d \<Rightarrow> body_overview d) of
        None \<Rightarrow> ''No overview available.''
      | Some s \<Rightarrow> if s = [] then ''No overview available.'' else s)"

definition safeSummary :: "summary_body option \<Rightarrow> summary" where
  "safeSummary data =
     \<lparr>overview = overview_or_default data,
      deep_concepts =
        (case (case data of None \<Rightarrow> None | Some d \<Rightarrow> body_deep_concepts d) of
           None \<Rightarrow> [] | Some cs \<Rightarrow> cs),
      actionable_takeaways =
        (case (case data of None \<Rightarrow> None | Some d \<Rightarrow> body_actionable_takeaways d) of
           None \<Rightarrow> [] | Some ts \<Rightarrow> ts)\<rparr>"

definition fetchSummary :: "js_error + summary_body option \<Rightarrow> summary_state \<Rightarrow> summary_state" where
  "fetchSummary resp st =
     (case resp of
        Inl e \<Rightarrow>
          st\<lparr>summary_error :=
               Some ''Failed to load summary. The video might not be fully processed yet.'',
             summary_loading := False\<rparr>
      | Inr data \<Rightarrow> st\<lparr>summaryData := Some (safeSummary data), summary_loading := False\<rparr>)"

section \<open>The two timestamp formatters\<close>

text \<open>
  \<open>seconds\<close> is a real number: the formatters are modelled in exact arithmetic, without
  the rounding of doubles and without \<open>NaN\<close> and the infinities.
\<close>

text \<open>\<open>a % b\<close>: the remainder has the sign of the dividend.\<close>

definition js_rem :: "real \<Rightarrow> real \<Rightarrow> real" where
  "js_rem a b =
     (let q = a / b
      in a - b * of_int (if q \<ge> 0 then \<lfloor>q\<rfloor> else \<lceil>q\<rceil>))"

definition digit_char :: "nat \<Rightarrow> char" where
  "digit_char d = char_of (48 + d)"

fun nat_toString :: "nat \<Rightarrow> string" where
  "nat_toString n =
     (if n < 10 then [digit_char n] else nat_toString (n div 10) @ [digit_char (n mod 10)])"

text \<open>\<open>toString\<close> of an integer-valued number, in decimal.\<close>

definition int_toString :: "int \<Rightarrow> string" where
  "int_toString i = (if i < 0 then CHR ''-'' # nat_toString (nat (- i)) else nat_toString (nat i))"

text \<open>\<open>s.padStart(n, c)\<close> with a one-character pad string.\<close>

definition padStart :: "nat \<Rightarrow> char \<Rightarrow> string \<Rightarrow> string" where
  "padStart n c s = replicate (n - length s) c @ s"

text \<open>\<open>formatTime\<close> of the chat view (lines 66 to 70).\<close>

definition formatTime_chat :: "real \<Rightarrow> string" where
  "formatTime_chat seconds =
     (let m = \<lfloor>seconds / 60\<rfloor>;
          s = \<lfloor>js_rem seconds 60\<rfloor>
      in int_toString m @ '':'' @ padStart 2 (CHR ''0'') (int_toString s))"

text \<open>\<open>formatTime\<close> of the summary view (lines 42 to 46).\<close>

definition formatTime_summary :: "real \<Rightarrow> string" where
  "formatTime_summary seconds =
     (let m = \<lfloor>seconds / 60\<rfloor>;
          s = \<lfloor>js_rem seconds 60\<rfloor>
      in int_toString m @ '':'' @ padStart 2 (CHR ''0'') (int_toString s))"


section \<open>URLInput.jsx\<close>

text \<open>
  What the catch block of \<open>handleSubmit\<close> reads of a rejected \<open>/video/process\<close> request:
  \<open>err.code\<close>, \<open>err.response\<close> with \<open>data?.detail\<close> and \<open>status\<close>, whether \<open>err.request\<close> is
  set, and \<open>err.message\<close>.
\<close>

record error_response =
  resp_detail :: "string option"
  resp_status :: int

record axios_error =
  err_code :: "string option"
  err_response :: "error_response option"
  err_request :: bool
  err_message :: "string option"

text \<open>
  The state of the view, without the progress text, which a timer cycles through
  messages outside the ASCII range.
\<close>

record url_state =
  url :: string
  url_loading :: bool
  url_error :: "string option"

text \<open>Lines 54 to 63.\<close>

definition process_error_message :: "axios_error \<Rightarrow> string" where
  "process_error_message err =
     (if err_code err = Some ''ECONNABORTED''
      then ''Request timed out. The video is too long or server is busy.''
      else
        (case err_response err of
           Some r \<Rightarrow>
             (case resp_detail r of
                None \<Rightarrow> ''Server Error ('' @ int_toString (resp_status r) @ '')''
              | Some d \<Rightarrow>
                  if d = [] then ''Server Error ('' @ int_toString (resp_status r) @ '')''
                  else d)
         | None \<Rightarrow>
             if err_request err then ''Network Error - Backend unreachable.''
             else (case err_message err of
                     None \<Rightarrow> ''Unknown Error''
                   | Some m \<Rightarrow> if m = [] then ''Unknown Error'' else m)))"

text \<open>
  \<open>handleSubmit\<close> (lines 19 to 67). The argument is what the request settles with. The
  result is the state after the handler and its timeout have run, and the response body
  handed to \<open>onMetadataLoaded\<close>, if any.
\<close>

definition handleSubmit :: "axios_error + 'a \<Rightarrow> url_state \<Rightarrow> url_state \<times> 'a option" where
  "handleSubmit resp st =
     (if trim (url st) = [] then (st, None)
      else
        let st1 = st\<lparr>url_loading := True, url_error := None\<rparr>
        in (case resp of
              Inr data \<Rightarrow> (st1\<lparr>url_loading := False\<rparr>, Some data)
            | Inl err \<Rightarrow>
                (st1\<lparr>url_error := Some (process_error_message err), url_loading := False\<rparr>,
                 None)))"

section \<open>Specification-side notions and example inputs\<close>

text \<open>
  The leading letter of the spec: the upper-case form of the first character of a string,
  if it has one.
\<close>

definition leading_upper :: "string \<Rightarrow> char option" where
  "leading_upper s = (case s of [] \<Rightarrow> None | c # _ \<Rightarrow> Some (upper_char c))"

definition q_easy :: question where
  "q_easy =
     \<lparr>qtype = Some ''mcq'', question = Some ''What does the indexer store?'',
      options = Some [''A. chunks'', ''B. frames''], correct = Some ''A'',
      difficulty = Some ''easy'', explanation = None\<rparr>"

definition q_hard :: question where
  "q_hard =
     \<lparr>qtype = Some ''mcq'', question = Some ''Which tie-break does retrieval use?'',
      options = Some [''A. latest'', ''B. earliest''], correct = Some ''b. earliest'',
      difficulty = Some ''hard'', explanation = Some ''Earliest in the video wins.''\<rparr>"

definition q_open :: question where
  "q_open =
     \<lparr>qtype = Some ''open'', question = Some ''What is X?'', options = None,
      correct = Some ''X is Y'', difficulty = Some ''medium'', explanation = None\<rparr>"

text \<open>A quiz of three questions, at its first question, nothing answered yet.\<close>

definition game0 :: game_state where
  "game0 =
     \<lparr>questions = [q_easy, q_hard, q_open], loading = False, error = None, currentQ = 0,
      selectedAnswer = None, showResult = False, isCorrect = False, openAnswer = [],
      grading = False, gradeFeedback = None, score = 0, xp = 0, gameComplete = False\<rparr>"

text \<open>The same quiz at its second question.\<close>

definition game1 :: game_state where
  "game1 = game0\<lparr>currentQ := 1\<rparr>"

text \<open>The same quiz at its last, open-ended question, with an answer typed in.\<close>

definition game_open :: game_state where
  "game_open = game0\<lparr>currentQ := 2, openAnswer := ''X is Z''\<rparr>"

definition chat0 :: chat_state where
  "chat0 =
     \<lparr>messages =
        [\<lparr>role = ''assistant'',
          content = Some ''Hi! I've analyzed this video. Ask me anything about it!'',
          sources = None\<rparr>],
      input = ''What is X?'', chat_loading = False, currentSources = []\<rparr>"

text \<open>A conversation of eight messages numbered 1 to 8, the even ones with sources.\<close>

definition chat8 :: chat_state where
  "chat8 =
     \<lparr>messages =
        [\<lparr>role = ''assistant'', content = Some ''1'', sources = None\<rparr>,
         \<lparr>role = ''user'', content = Some ''2'', sources = None\<rparr>,
         \<lparr>role = ''assistant'', content = Some ''3'', sources = Some []\<rparr>,
         \<lparr>role = ''user'', content = Some ''4'', sources = None\<rparr>,
         \<lparr>role = ''assistant'', content = Some ''5'', sources = Some []\<rparr>,
         \<lparr>role = ''user'', content = Some ''6'', sources = None\<rparr>,
         \<lparr>role = ''assistant'', content = Some ''7'', sources = Some []\<rparr>,
         \<lparr>role = ''user'', content = Some ''8'', sources = None\<rparr>],
      input = ''9'', chat_loading = False, currentSources = []\<rparr>"

definition summary0 :: summary_state where
  "summary0 =
     \<lparr>activeTab = ''overview'', summaryData = None, summary_loading = True,
      summary_error = None, copied = False\<rparr>"

definition url0 :: url_state where
  "url0 = \<lparr>url = ''https://youtu.be/abc'', url_loading = False, url_error = None\<rparr>"

section \<open>Auxiliary facts\<close>

declare nat_toString.simps [simp del]

lemma toUpperCase_charAt_0:
  "toUpperCase (charAt s 0) = (case s of [] \<Rightarrow> [] | c # _ \<Rightarrow> [upper_char c])"
  by (cases s) (simp_all add: toUpperCase_def charAt_def)

lemma leading_letters_agree:
  "(toUpperCase (charAt a 0) = toUpperCase (charAt b 0)) = (leading_upper a = leading_upper b)"
  by (cases a; cases b) (simp_all add: toUpperCase_charAt_0 leading_upper_def)

lemma mcq_correct_leading:
  "mcq_correct q opt =
     (case correct q of None \<Rightarrow> False | Some c \<Rightarrow> leading_upper c = leading_upper opt)"
  by (simp add: mcq_correct_def leading_letters_agree split: option.splits)

lemma handleMCQSelect_fresh:
  assumes "currentQuestion st = Some q" and "\<not> showResult st"
  shows "handleMCQSelect opt st =
           Done (if mcq_correct q opt
                 then st\<lparr>selectedAnswer := Some opt, isCorrect := True, showResult := True,
                         score := score st + 1, xp := xp st + mcq_points q\<rparr>
                 else st\<lparr>selectedAnswer := Some opt, isCorrect := False, showResult := True\<rparr>)"
  using assms by (simp add: handleMCQSelect_def Let_def)

lemma currentQuestion_game0: "currentQuestion game0 = Some q_easy"
  by (simp add: currentQuestion_def game0_def)

lemma currentQuestion_game1: "currentQuestion game1 = Some q_hard"
  by (simp add: currentQuestion_def game1_def game0_def)

lemma currentQuestion_game_open: "currentQuestion game_open = Some q_open"
  by (simp add: currentQuestion_def game_open_def game0_def)

lemma game0_fields:
  "score game0 = 0" "xp game0 = 0" "\<not> showResult game0" "\<not> isCorrect game0"
  by (simp_all add: game0_def)

lemma game1_fields:
  "score game1 = 0" "xp game1 = 0" "\<not> showResult game1" "\<not> isCorrect game1"
  by (simp_all add: game1_def game0_def)

lemma upper_char_examples:
  "upper_char CHR ''a'' = CHR ''A''" "upper_char CHR ''A'' = CHR ''A''"
  "upper_char CHR ''b'' = CHR ''B''" "upper_char CHR ''B'' = CHR ''B''"
  by (simp_all add: upper_char_def char_of_def bit_Suc_0_iff)

lemma dropWhile_all_iff: "(\<forall>x\<in>set (dropWhile P s). P x) = (\<forall>x\<in>set s. P x)"
  by (metis dropWhile_idem dropWhile_eq_Nil_conv)

lemma trim_empty_iff: "(trim s = []) = (\<forall>c\<in>set s. is_ws c)"
  by (simp add: trim_def dropWhile_all_iff)

lemma slice_from_last_six: "slice_from (- 6) xs = rev (take 6 (rev xs))"
proof -
  have "nat (max (int (length xs) - 6) 0) = length xs - 6" by arith
  then show ?thesis by (simp add: slice_from_def Let_def take_rev)
qed

lemma floor_div_60: "\<lfloor>t / 60\<rfloor> = \<lfloor>t\<rfloor> div 60" for t :: real
  using floor_divide_real_eq_div [of 60 t] by simp

lemma floor_js_rem_60:
  fixes t :: real
  assumes "0 \<le> t"
  shows "\<lfloor>js_rem t 60\<rfloor> = \<lfloor>t\<rfloor> mod 60"
proof -
  have "0 \<le> t / 60" using assms by simp
  then have "js_rem t 60 = t - of_int (60 * (\<lfloor>t\<rfloor> div 60))"
    by (simp add: js_rem_def Let_def floor_div_60)
  then have "\<lfloor>js_rem t 60\<rfloor> = \<lfloor>t\<rfloor> - 60 * (\<lfloor>t\<rfloor> div 60)"
    by (simp only: floor_diff_of_int)
  then show ?thesis
    by (simp add: minus_mult_div_eq_mod)
qed

lemma padStart_two_digits:
  assumes "n < 60"
  shows "padStart 2 (CHR ''0'') (nat_toString n) = [digit_char (n div 10), digit_char (n mod 10)]"
proof (cases "n < 10")
  case True
  then show ?thesis
    by (simp add: padStart_def nat_toString.simps [of n] digit_char_def char_of_def
        bit_Suc_0_iff)
next
  case False
  then have "n div 10 < 10" using assms by simp
  with False show ?thesis
    by (simp add: padStart_def nat_toString.simps [of n] nat_toString.simps [of "n div 10"])
qed

text \<open>Minutes and seconds of a non-negative time, as the formatter body computes them.\<close>

lemma format_body_nonneg:
  fixes t :: real
  assumes "0 \<le> t"
  shows "int_toString \<lfloor>t / 60\<rfloor> @ '':'' @ padStart 2 (CHR ''0'') (int_toString \<lfloor>js_rem t 60\<rfloor>) =
         nat_toString (nat \<lfloor>t\<rfloor> div 60) @ '':'' @
           [digit_char (nat \<lfloor>t\<rfloor> mod 60 div 10), digit_char (nat \<lfloor>t\<rfloor> mod 60 mod 10)]"
proof -
  have f: "0 \<le> \<lfloor>t\<rfloor>" using assms by simp
  have m: "\<lfloor>t / 60\<rfloor> = int (nat \<lfloor>t\<rfloor> div 60)"
    using f by (simp add: floor_div_60 zdiv_int)
  have s: "\<lfloor>js_rem t 60\<rfloor> = int (nat \<lfloor>t\<rfloor> mod 60)"
    using f by (simp add: floor_js_rem_60 [OF assms] zmod_int)
  have lt: "nat \<lfloor>t\<rfloor> mod 60 < 60" by simp
  show ?thesis
    unfolding m s int_toString_def using padStart_two_digits [OF lt] by simp
qed

lemma game_open_fields:
  "score game_open = 0" "xp game_open = 0" "\<not> showResult game_open"
  "\<not> grading game_open" "error game_open = None" "\<not> loading game_open"
  "\<not> gameComplete game_open" "openAnswer game_open = ''X is Z''" "currentQ game_open = 2"
  by (simp_all add: game_open_def game0_def)

lemma trim_examples:
  "trim ''X is Z'' \<noteq> []" "trim ''What is X?'' \<noteq> []" "trim ''9'' \<noteq> []"
  "trim ''https://youtu.be/abc'' \<noteq> []"
  by (simp_all add: trim_def is_ws_def)

lemma handleMCQSelect_shows_result:
  assumes "handleMCQSelect opt st = Done st'"
  shows "showResult st' \<and> currentQ st' = currentQ st"
  using assms
  by (auto simp add: handleMCQSelect_def Let_def split: if_splits option.splits)

lemma user_event_shown:
  assumes "showResult st"
  shows "user_event ev st = Done (if ev = NextQuestion \<and> enabled st ev then handleNext st else st)"
  using assms
  by (cases ev) (auto simp add: user_event_def enabled_def handleMCQSelect_def split: option.splits)

lemma handleNext_keeps_points: "score (handleNext st) = score st \<and> xp (handleNext st) = xp st"
  by (simp add: handleNext_def)

lemma handleNext_shown:
  assumes "showResult st"
  shows "currentQ (handleNext st) = currentQ st \<and> showResult (handleNext st) \<or>
         currentQ (handleNext st) = currentQ st + 1"
  using assms by (simp add: handleNext_def)

lemma handleOpenSubmit_shows_result:
  assumes "fst (handleOpenSubmit r st) = Done st'"
  shows "st' = st \<or> showResult st' \<and> currentQ st' = currentQ st"
  using assms
  by (auto simp add: handleOpenSubmit_def Let_def grade_failed_def grade_received_def
      split: if_splits option.splits sum.splits)

lemma user_event_contribution:
  assumes "user_event ev st = Done st'" and "(score st', xp st') \<noteq> (score st, xp st)"
  shows "showResult st' \<and> currentQ st' = currentQ st"
proof (cases "enabled st ev")
  case False
  with assms show ?thesis by (simp add: user_event_def)
next
  case True
  show ?thesis
  proof (cases ev)
    case (SelectOption opt)
    with True assms show ?thesis
      by (simp add: user_event_def handleMCQSelect_shows_result)
  next
    case (TypeAnswer v)
    with True assms show ?thesis by (auto simp add: user_event_def)
  next
    case (SubmitAnswer r)
    with True assms have "fst (handleOpenSubmit r st) = Done st'"
      by (simp add: user_event_def)
    from handleOpenSubmit_shows_result [OF this] assms(2) show ?thesis by auto
  next
    case NextQuestion
    with True assms show ?thesis
      by (auto simp add: user_event_def handleNext_keeps_points)
  qed
qed

lemma user_event_currentQ_mono:
  assumes "user_event ev st = Done st'"
  shows "currentQ st \<le> currentQ st'"
proof (cases "enabled st ev")
  case False
  with assms show ?thesis by (simp add: user_event_def)
next
  case True
  show ?thesis
  proof (cases ev)
    case (SelectOption opt)
    with True assms show ?thesis
      by (simp add: user_event_def handleMCQSelect_shows_result)
  next
    case (TypeAnswer v)
    with True assms show ?thesis by (auto simp add: user_event_def)
  next
    case (SubmitAnswer r)
    with True assms have "fst (handleOpenSubmit r st) = Done st'"
      by (simp add: user_event_def)
    from handleOpenSubmit_shows_result [OF this] show ?thesis by auto
  next
    case NextQuestion
    with True assms show ?thesis
      by (auto simp add: user_event_def handleNext_def split: if_splits)
  qed
qed

lemma contributions_past:
  "i < currentQ st \<Longrightarrow> contributions i evs st = 0"
proof (induction evs arbitrary: st)
  case Nil
  show ?case by simp
next
  case (Cons ev evs)
  show ?case
  proof (cases "user_event ev st")
    case (Threw e s)
    then show ?thesis by simp
  next
    case (Done st')
    from user_event_currentQ_mono [OF Done] Cons.prems have "i < currentQ st'" by simp
    from Cons.IH [OF this] Done Cons.prems show ?thesis by simp
  qed
qed

lemma contributions_shown:
  "showResult st \<Longrightarrow> i \<le> currentQ st \<Longrightarrow> contributions i evs st = 0"
proof (induction evs arbitrary: st)
  case Nil
  show ?case by simp
next
  case (Cons ev evs)
  let ?st' = "if ev = NextQuestion \<and> enabled st ev then handleNext st else st"
  have step: "user_event ev st = Done ?st'"
    by (rule user_event_shown [OF Cons.prems(1)])
  have same: "(score ?st', xp ?st') = (score st, xp st)"
    by (simp add: handleNext_keeps_points)
  have rest: "contributions i evs ?st' = 0"
  proof (cases "ev = NextQuestion \<and> enabled st ev")
    case False
    then have "?st' = st" by auto
    then show ?thesis using Cons.IH [OF Cons.prems] by simp
  next
    case True
    then have st': "?st' = handleNext st" by auto
    from handleNext_shown [OF Cons.prems(1)] show ?thesis
    proof
      assume "currentQ (handleNext st) = currentQ st \<and> showResult (handleNext st)"
      then show ?thesis unfolding st' using Cons.prems(2) Cons.IH [of "handleNext st"] by simp
    next
      assume "currentQ (handleNext st) = currentQ st + 1"
      then have "i < currentQ (handleNext st)" using Cons.prems(2) by simp
      from contributions_past [OF this] show ?thesis unfolding st' .
    qed
  qed
  show ?case
    unfolding contributions.simps step using same rest by simp
qed

lemma contributions_at_most_once: "contributions i evs st \<le> 1"
proof (induction evs arbitrary: st)
  case Nil
  show ?case by simp
next
  case (Cons ev evs)
  show ?case
  proof (cases "user_event ev st")
    case (Threw e s)
    then show ?thesis by simp
  next
    case (Done st')
    show ?thesis
    proof (cases "currentQ st = i \<and> (score st', xp st') \<noteq> (score st, xp st)")
      case False
      then show ?thesis using Done Cons.IH [of st'] by auto
    next
      case True
      then have "showResult st' \<and> currentQ st' = currentQ st"
        using user_event_contribution [OF Done] by blast
      then have "contributions i evs st' = 0"
        using True contributions_shown [of st' i evs] by simp
      then show ?thesis using Done True by simp
    qed
  qed
qed

section \<open>Multiple-choice answers\<close>

text \<open>
  C1. When an option of the current question is selected (no result shown yet), the
  selection is judged correct exactly when the question has a \<open>correct\<close> field and the
  upper-case first character of the selected option equals the upper-case first
  character of that field.
\<close>

theorem mcq_judged_by_leading_letter:
  assumes "currentQuestion st = Some q" and "\<not> showResult st"
  shows "\<exists>st'. handleMCQSelect opt st = Done st' \<and>
           isCorrect st' =
             (case correct q of None \<Rightarrow> False
              | Some c \<Rightarrow> leading_upper c = leading_upper opt)"
  using assms by (simp add: handleMCQSelect_fresh mcq_correct_leading)

theorem mcq_judged_by_leading_letter_witness:
  "currentQuestion game1 = Some q_hard \<and> \<not> showResult game1 \<and>
   (\<exists>st'. handleMCQSelect ''B. earliest'' game1 = Done st' \<and> isCorrect st') \<and>
   (\<exists>st'. handleMCQSelect ''A. latest'' game1 = Done st' \<and> \<not> isCorrect st')"
proof -
  have h: "\<not> showResult game1" by (simp add: game1_def game0_def)
  have b: "leading_upper ''b. earliest'' = leading_upper ''B. earliest''"
    by (simp add: leading_upper_def upper_char_examples)
  have a: "leading_upper ''b. earliest'' \<noteq> leading_upper ''A. latest''"
    by (simp add: leading_upper_def upper_char_examples)
  show ?thesis
    using mcq_judged_by_leading_letter [OF currentQuestion_game1 h, of "''B. earliest''"]
      mcq_judged_by_leading_letter [OF currentQuestion_game1 h, of "''A. latest''"]
      currentQuestion_game1 h a b
    by (simp add: q_hard_def)
qed



text \<open>
  C6. Of two multiple-choice answers with the same correctness outcome, the one to a
  question of difficulty \<open>hard\<close> earns at least as much XP as the one to a question of
  difficulty \<open>easy\<close>.
\<close>

theorem mcq_xp_hard_at_least_easy:
  assumes "currentQuestion sh = Some qh" and "\<not> showResult sh"
    and "currentQuestion se = Some qe" and "\<not> showResult se"
    and "difficulty qh = Some ''hard''" and "difficulty qe = Some ''easy''"
    and "handleMCQSelect oh sh = Done sh'" and "handleMCQSelect oe se = Done se'"
    and "isCorrect sh' = isCorrect se'"
  shows "xp se' - xp se \<le> xp sh' - xp sh"
proof -
  have sh': "sh' = (if mcq_correct qh oh
                 then sh\<lparr>selectedAnswer := Some oh, isCorrect := True, showResult := True,
                         score := score sh + 1, xp := xp sh + mcq_points qh\<rparr>
                 else sh\<lparr>selectedAnswer := Some oh, isCorrect := False, showResult := True\<rparr>)"
    using assms(7) by (simp add: handleMCQSelect_fresh [OF assms(1,2)])
  have se': "se' = (if mcq_correct qe oe
                 then se\<lparr>selectedAnswer := Some oe, isCorrect := True, showResult := True,
                         score := score se + 1, xp := xp se + mcq_points qe\<rparr>
                 else se\<lparr>selectedAnswer := Some oe, isCorrect := False, showResult := True\<rparr>)"
    using assms(8) by (simp add: handleMCQSelect_fresh [OF assms(3,4)])
  have "mcq_correct qh oh = mcq_correct qe oe"
    using assms(9) by (simp add: sh' se' split: if_splits)
  then show ?thesis
    using assms(5,6) by (simp add: sh' se' mcq_points_def)
qed

theorem mcq_xp_hard_at_least_easy_witness:
  "currentQuestion game1 = Some q_hard \<and> \<not> showResult game1 \<and>
   currentQuestion game0 = Some q_easy \<and> \<not> showResult game0 \<and>
   difficulty q_hard = Some ''hard'' \<and> difficulty q_easy = Some ''easy'' \<and>
   handleMCQSelect ''B. earliest'' game1 =
     Done (game1\<lparr>selectedAnswer := Some ''B. earliest'', isCorrect := True,
                 showResult := True, score := 1, xp := 20\<rparr>) \<and>
   handleMCQSelect ''A. chunks'' game0 =
     Done (game0\<lparr>selectedAnswer := Some ''A. chunks'', isCorrect := True,
                 showResult := True, score := 1, xp := 10\<rparr>) \<and>
   (10::int) - xp game0 \<le> 20 - xp game1"
proof -
  have h1: "\<not> showResult game1" by (simp add: game1_def game0_def)
  have h0: "\<not> showResult game0" by (simp add: game0_def)
  have dh: "difficulty q_hard = Some ''hard''" by (simp add: q_hard_def)
  have de: "difficulty q_easy = Some ''easy''" by (simp add: q_easy_def)
  have ch: "mcq_correct q_hard ''B. earliest''"
    by (simp add: mcq_correct_leading q_hard_def leading_upper_def upper_char_examples)
  have ce: "mcq_correct q_easy ''A. chunks''"
    by (simp add: mcq_correct_leading q_easy_def leading_upper_def upper_char_examples)
  have sh: "handleMCQSelect ''B. earliest'' game1 =
     Done (game1\<lparr>selectedAnswer := Some ''B. earliest'', isCorrect := True,
                 showResult := True, score := 1, xp := 20\<rparr>)"
    using ch dh
    by (simp add: handleMCQSelect_fresh [OF currentQuestion_game1 h1] mcq_points_def
        game1_fields)
  have se: "handleMCQSelect ''A. chunks'' game0 =
     Done (game0\<lparr>selectedAnswer := Some ''A. chunks'', isCorrect := True,
                 showResult := True, score := 1, xp := 10\<rparr>)"
    using ce de
    by (simp add: handleMCQSelect_fresh [OF currentQuestion_game0 h0] mcq_points_def
        game0_fields)
  have "isCorrect (game1\<lparr>selectedAnswer := Some ''B. earliest'', isCorrect := True,
                 showResult := True, score := 1, xp := 20\<rparr>) =
        isCorrect (game0\<lparr>selectedAnswer := Some ''A. chunks'', isCorrect := True,
                 showResult := True, score := 1, xp := 10\<rparr>)"
    by simp
  from mcq_xp_hard_at_least_easy [OF currentQuestion_game1 h1 currentQuestion_game0 h0
      dh de sh se this]
  show ?thesis
    using currentQuestion_game1 currentQuestion_game0 h1 h0 dh de sh se
    by (simp add: game0_fields game1_fields)
qed

text \<open>
  C8. Once the result of the current question is shown, selecting an option changes
  nothing at all, and a second selection after a completed first one changes nothing.
  For open-ended questions the submit handler returns at once while a grading is in
  flight, and its button, like the option buttons and the text area, is not available
  while the result is shown. So once the result is shown every user event leaves score
  and XP unchanged, and only the next button changes the state at all; every step that
  changes score or XP shows the result of the same question; and in any sequence of user
  events at most one step changes score or XP while a given question is the current one.
\<close>

theorem question_counts_at_most_once:
  "(showResult sa \<longrightarrow> handleMCQSelect opt sa = Done sa) \<and>
   (handleMCQSelect oa sb = Done sb' \<longrightarrow> handleMCQSelect ob sb' = Done sb') \<and>
   (grading sg \<longrightarrow> handleOpenSubmit r sg = (Done sg, [])) \<and>
   (showResult sa \<longrightarrow>
      \<not> enabled sa (SelectOption opt) \<and> \<not> enabled sa (TypeAnswer v) \<and>
      \<not> enabled sa (SubmitAnswer r)) \<and>
   (showResult sa \<longrightarrow>
      (\<exists>sa'. user_event ev sa = Done sa' \<and> score sa' = score sa \<and> xp sa' = xp sa \<and>
             (ev \<noteq> NextQuestion \<longrightarrow> sa' = sa))) \<and>
   (user_event ev' sc = Done sc' \<and> (score sc', xp sc') \<noteq> (score sc, xp sc) \<longrightarrow>
      showResult sc' \<and> currentQ sc' = currentQ sc) \<and>
   contributions i evs st \<le> 1"
proof -
  have second: "handleMCQSelect ob sb' = Done sb'" if "handleMCQSelect oa sb = Done sb'"
    using handleMCQSelect_shows_result [OF that] by (simp add: handleMCQSelect_def)
  have off: "\<not> enabled sa (SelectOption opt) \<and> \<not> enabled sa (TypeAnswer v) \<and>
             \<not> enabled sa (SubmitAnswer r)" if "showResult sa"
    using that by (simp add: enabled_def split: option.splits)
  have shown: "\<exists>sa'. user_event ev sa = Done sa' \<and> score sa' = score sa \<and> xp sa' = xp sa \<and>
             (ev \<noteq> NextQuestion \<longrightarrow> sa' = sa)" if "showResult sa"
    using user_event_shown [OF that, of ev] by (simp add: handleNext_keeps_points)
  have credit: "showResult sc' \<and> currentQ sc' = currentQ sc"
    if "user_event ev' sc = Done sc'" and "(score sc', xp sc') \<noteq> (score sc, xp sc)"
    using that by (rule user_event_contribution)
  show ?thesis
    using second off shown credit contributions_at_most_once [of i evs st]
    by (simp add: handleMCQSelect_def handleOpenSubmit_def)
qed

text \<open>
  An open-ended answer graded with 20 XP; the submit button pressed again afterwards
  does nothing.
\<close>

theorem question_counts_at_most_once_witness:
  "user_event
     (SubmitAnswer (Inr (Some \<lparr>score_of = Some 3, feedback = Some ''Great'',
                                xp_earned = Some 20\<rparr>)))
     game_open =
     Done (game_open\<lparr>gradeFeedback := Some \<lparr>score_of = Some 3, feedback = Some ''Great'',
                                              xp_earned = Some 20\<rparr>,
                      showResult := True, xp := 20, score := 1\<rparr>) \<and>
   user_event
     (SubmitAnswer (Inr (Some \<lparr>score_of = Some 3, feedback = Some ''Great'',
                                xp_earned = Some 20\<rparr>)))
     (game_open\<lparr>gradeFeedback := Some \<lparr>score_of = Some 3, feedback = Some ''Great'',
                                        xp_earned = Some 20\<rparr>,
                showResult := True, xp := 20, score := 1\<rparr>) =
     Done (game_open\<lparr>gradeFeedback := Some \<lparr>score_of = Some 3, feedback = Some ''Great'',
                                              xp_earned = Some 20\<rparr>,
                      showResult := True, xp := 20, score := 1\<rparr>) \<and>
   handleMCQSelect ''B. frames'' game0 =
     Done (game0\<lparr>selectedAnswer := Some ''B. frames'', showResult := True\<rparr>) \<and>
   handleMCQSelect ''A. chunks'' (game0\<lparr>selectedAnswer := Some ''B. frames'', showResult := True\<rparr>) =
     Done (game0\<lparr>selectedAnswer := Some ''B. frames'', showResult := True\<rparr>) \<and>
   handleOpenSubmit (Inl TypeError) (game_open\<lparr>grading := True\<rparr>) =
     (Done (game_open\<lparr>grading := True\<rparr>), []) \<and>
   contributions 2
     [SubmitAnswer (Inr (Some \<lparr>score_of = Some 3, feedback = Some ''Great'',
                                 xp_earned = Some 20\<rparr>)),
      SubmitAnswer (Inr (Some \<lparr>score_of = Some 3, feedback = Some ''Great'',
                                 xp_earned = Some 20\<rparr>))]
     game_open = 1"
proof -
  let ?r = "Inr (Some \<lparr>score_of = Some 3, feedback = Some ''Great'', xp_earned = Some 20\<rparr>)"
  let ?g = "game_open\<lparr>gradeFeedback := Some \<lparr>score_of = Some 3, feedback = Some ''Great'',
                                               xp_earned = Some 20\<rparr>,
                       showResult := True, xp := 20, score := 1\<rparr>"
  let ?m = "game0\<lparr>selectedAnswer := Some ''B. frames'', showResult := True\<rparr>"
  have en: "enabled game_open (SubmitAnswer ?r)"
    by (simp add: enabled_def currentQuestion_game_open game_open_fields error_shown_def
        mcq_rendered_def submit_disabled_def trim_examples q_open_def)
  have sub: "fst (handleOpenSubmit ?r game_open) = Done ?g"
    by (simp add: handleOpenSubmit_def Let_def currentQuestion_game_open game_open_fields
        trim_examples grade_received_def xp_or_zero_def score_passes_def)
  have first: "user_event (SubmitAnswer ?r) game_open = Done ?g"
    using en sub by (simp add: user_event_def)
  have h0: "\<not> showResult game0" by (simp add: game0_fields)
  have "\<not> mcq_correct q_easy ''B. frames''"
    by (simp add: mcq_correct_leading q_easy_def leading_upper_def upper_char_examples)
  then have sel: "handleMCQSelect ''B. frames'' game0 = Done ?m"
    by (simp add: handleMCQSelect_fresh [OF currentQuestion_game0 h0] game0_fields)
  have shown: "showResult ?g" "showResult ?m" "grading (game_open\<lparr>grading := True\<rparr>)"
    by simp_all
  have changed: "(score ?g, xp ?g) \<noteq> (score game_open, xp game_open)"
    by (simp add: game_open_fields)
  note t = question_counts_at_most_once [where sa = ?g and opt = "''A. chunks''"
      and oa = "''B. frames''" and sb = game0 and sb' = ?m and ob = "''A. chunks''"
      and sg = "game_open\<lparr>grading := True\<rparr>" and r = "Inl TypeError"
      and v = "''more''" and ev = "SubmitAnswer ?r" and ev' = "SubmitAnswer ?r"
      and sc = game_open and sc' = ?g and i = 2
      and evs = "[SubmitAnswer ?r, SubmitAnswer ?r]" and st = game_open]
  note u = question_counts_at_most_once [where sa = ?m and opt = "''A. chunks''"
      and oa = "''B. frames''" and sb = game0 and sb' = ?m and ob = "''A. chunks''"
      and sg = "game_open\<lparr>grading := True\<rparr>" and r = "Inl TypeError"
      and v = "''more''" and ev = "SubmitAnswer ?r" and ev' = "SubmitAnswer ?r"
      and sc = game_open and sc' = ?g and i = 2
      and evs = "[SubmitAnswer ?r, SubmitAnswer ?r]" and st = game_open]
  have again: "user_event (SubmitAnswer ?r) ?g = Done ?g"
    using t shown by (simp add: user_event_def)
  have count: "contributions 2 [SubmitAnswer ?r, SubmitAnswer ?r] game_open = 1"
    using first again changed by (simp add: game_open_fields)
  show ?thesis
    using first again sel u shown count t by simp
qed

section \<open>Open-ended answers and advancing\<close>

text \<open>
  C7. When the typed answer is empty or consists of white space only, submitting it
  issues no grading request and leaves the whole state (score, XP and feedback included)
  as it was, whatever the grading service would have answered.
\<close>

theorem blank_answer_makes_no_grading_call:
  assumes "\<forall>c\<in>set (openAnswer st). is_ws c"
  shows "handleOpenSubmit resp st = (Done st, [])"
  using assms by (simp add: handleOpenSubmit_def trim_empty_iff)

theorem blank_answer_makes_no_grading_call_witness:
  "is_ws CHR '' '' \<and> is_ws CHR 0x09 \<and> is_ws CHR 0x0A \<and>
   openAnswer (game_open\<lparr>openAnswer := [CHR '' '', CHR 0x09, CHR 0x0A]\<rparr>) =
     [CHR '' '', CHR 0x09, CHR 0x0A] \<and>
   handleOpenSubmit
     (Inr (Some \<lparr>score_of = Some 3, feedback = Some ''Great'', xp_earned = Some 20\<rparr>))
     (game_open\<lparr>openAnswer := [CHR '' '', CHR 0x09, CHR 0x0A]\<rparr>) =
     (Done (game_open\<lparr>openAnswer := [CHR '' '', CHR 0x09, CHR 0x0A]\<rparr>), [])"
proof -
  have w: "is_ws CHR '' ''" "is_ws CHR 0x09" "is_ws CHR 0x0A"
    by (simp_all add: is_ws_def)
  then have h: "\<forall>c\<in>set (openAnswer (game_open\<lparr>openAnswer := [CHR '' '', CHR 0x09, CHR 0x0A]\<rparr>)).
             is_ws c"
    by simp
  from blank_answer_makes_no_grading_call [OF h] w show ?thesis by simp
qed

text \<open>
  C9. Advancing from a question that is not the last one moves to the next question and
  resets the selected answer, the result flag, the correctness flag, the typed answer
  and the grading feedback, leaving score, XP and every other field unchanged; advancing
  from the last question sets \<open>gameComplete\<close> and changes nothing else.
\<close>

theorem handleNext_frame:
  "(currentQ st + 1 < length (questions st) \<longrightarrow>
      currentQ (handleNext st) = currentQ st + 1 \<and>
      selectedAnswer (handleNext st) = None \<and>
      \<not> showResult (handleNext st) \<and>
      \<not> isCorrect (handleNext st) \<and>
      openAnswer (handleNext st) = [] \<and>
      gradeFeedback (handleNext st) = None \<and>
      score (handleNext st) = score st \<and>
      xp (handleNext st) = xp st \<and>
      questions (handleNext st) = questions st \<and>
      loading (handleNext st) = loading st \<and>
      error (handleNext st) = error st \<and>
      grading (handleNext st) = grading st \<and>
      gameComplete (handleNext st) = gameComplete st) \<and>
   (currentQ st + 1 \<ge> length (questions st) \<longrightarrow>
      handleNext st = st\<lparr>gameComplete := True\<rparr>)"
  by (simp add: handleNext_def)

theorem handleNext_frame_witness:
  "currentQ game1 + 1 < length (questions game1) \<and>
   currentQ (handleNext game1) = 2 \<and>
   score (handleNext game1) = score game1 \<and>
   xp (handleNext game1) = xp game1 \<and>
   currentQ game_open + 1 \<ge> length (questions game_open) \<and>
   handleNext game_open = game_open\<lparr>gameComplete := True\<rparr>"
proof -
  have a: "currentQ game1 + 1 < length (questions game1)"
    by (simp add: game1_def game0_def)
  have b: "currentQ game_open + 1 \<ge> length (questions game_open)"
    by (simp add: game_open_def game0_def)
  have c: "currentQ game1 = 1" by (simp add: game1_def)
  show ?thesis
    using handleNext_frame [of game1] handleNext_frame [of game_open] a b c by simp
qed

section \<open>Chat history\<close>

text \<open>
  C2. A chat send that passes the guard issues exactly one request. Its history is the
  six most recent messages the view held before the send (all of them when there are
  fewer), in their order, each cut down to its role and content; it is therefore a
  function of that message list alone, and at most six entries long.
\<close>

theorem handleSend_history_last_six:
  assumes "trim (input st) \<noteq> []" and "\<not> chat_loading st"
  shows "snd (handleSend resp videoId st) =
           [\<lparr>video_id = videoId, request_message = input st,
             history = map (\<lambda>m. \<lparr>role = role m, content = content m\<rparr>)
                           (rev (take 6 (rev (messages st))))\<rparr>] \<and>
         length (history (hd (snd (handleSend resp videoId st)))) = min 6 (length (messages st))"
proof -
  have req: "snd (handleSend resp videoId st) =
           [\<lparr>video_id = videoId, request_message = input st,
             history = map (\<lambda>m. \<lparr>role = role m, content = content m\<rparr>)
                           (rev (take 6 (rev (messages st))))\<rparr>]"
    using assms
    by (simp add: handleSend_def Let_def slice_from_last_six split: sum.splits option.splits)
  show ?thesis
    unfolding req by (simp add: min.commute)
qed

theorem handleSend_history_last_six_witness:
  "trim (input chat8) \<noteq> [] \<and> \<not> chat_loading chat8 \<and>
   snd (handleSend (Inr (Some \<lparr>answer = Some ''ok'', response_sources = None\<rparr>)) ''vid'' chat8) =
     [\<lparr>video_id = ''vid'', request_message = ''9'',
       history =
         [\<lparr>role = ''assistant'', content = Some ''3''\<rparr>,
          \<lparr>role = ''user'', content = Some ''4''\<rparr>,
          \<lparr>role = ''assistant'', content = Some ''5''\<rparr>,
          \<lparr>role = ''user'', content = Some ''6''\<rparr>,
          \<lparr>role = ''assistant'', content = Some ''7''\<rparr>,
          \<lparr>role = ''user'', content = Some ''8''\<rparr>]\<rparr>]"
proof -
  have i: "input chat8 = ''9''" by (simp add: chat8_def)
  have a: "trim (input chat8) \<noteq> []"
    unfolding i by (simp add: trim_def is_ws_def)
  have b: "\<not> chat_loading chat8" by (simp add: chat8_def)
  show ?thesis
    using handleSend_history_last_six [OF a b,
        of "Inr (Some \<lparr>answer = Some ''ok'', response_sources = None\<rparr>)" "''vid''"] a b
    by (simp add: chat8_def)
qed

section \<open>Timestamps\<close>

text \<open>
  C10. For every non-negative number of seconds the formatter of the chat view and the
  formatter of the summary view return the same string: the whole minutes in decimal, a
  colon, and the remaining whole seconds as exactly two decimal digits.
\<close>

theorem formatTime_views_agree:
  fixes t :: real
  assumes "0 \<le> t"
  shows "formatTime_chat t = formatTime_summary t \<and>
         formatTime_summary t =
           nat_toString (nat \<lfloor>t\<rfloor> div 60) @ '':'' @
             [digit_char (nat \<lfloor>t\<rfloor> mod 60 div 10), digit_char (nat \<lfloor>t\<rfloor> mod 60 mod 10)]"
  using format_body_nonneg [OF assms]
  by (simp add: formatTime_chat_def formatTime_summary_def Let_def)

theorem formatTime_views_agree_witness:
  "(0::real) \<le> 125.5 \<and> formatTime_chat 125.5 = ''2:05'' \<and> formatTime_summary 125.5 = ''2:05''"
proof -
  have h: "(0::real) \<le> 125.5" by simp
  have f: "\<lfloor>125.5::real\<rfloor> = 125" by simp
  have n: "nat_toString 2 = ''2''"
    by (simp add: nat_toString.simps digit_char_def char_of_def bit_Suc_0_iff)
  have d: "digit_char 0 = CHR ''0''" "digit_char 5 = CHR ''5''"
    by (simp_all add: digit_char_def char_of_def bit_Suc_0_iff)
  show ?thesis
    using formatTime_views_agree [OF h] by (simp add: f n d)
qed

section \<open>Failed requests and empty summaries\<close>

text \<open>
  C4, as the spec states it, fails for the grading call: a rejected grading request and a
  successful grading with score 0, feedback \<open>Error grading answer.\<close> and 0 XP issue the
  same request and leave the quiz in the same state, in which the result is shown and the
  view's error field is still empty.
\<close>

theorem grading_failure_presented_as_result:
  "handleOpenSubmit (Inl (RequestFailed ''Network Error'')) game_open =
     (Done (game_open\<lparr>gradeFeedback :=
                        Some \<lparr>score_of = Some 0, feedback = Some ''Error grading answer.'',
                              xp_earned = Some 0\<rparr>,
                      showResult := True\<rparr>),
      [\<lparr>req_question = Some ''What is X?'', req_correct_answer = Some ''X is Y'',
        req_user_answer = ''X is Z'', req_difficulty = Some ''medium''\<rparr>]) \<and>
   handleOpenSubmit
     (Inr (Some \<lparr>score_of = Some 0, feedback = Some ''Error grading answer.'',
                  xp_earned = Some 0\<rparr>))
     game_open =
     (Done (game_open\<lparr>gradeFeedback :=
                        Some \<lparr>score_of = Some 0, feedback = Some ''Error grading answer.'',
                              xp_earned = Some 0\<rparr>,
                      showResult := True\<rparr>),
      [\<lparr>req_question = Some ''What is X?'', req_correct_answer = Some ''X is Y'',
        req_user_answer = ''X is Z'', req_difficulty = Some ''medium''\<rparr>]) \<and>
   error (game_open\<lparr>gradeFeedback :=
                      Some \<lparr>score_of = Some 0, feedback = Some ''Error grading answer.'',
                            xp_earned = Some 0\<rparr>,
                    showResult := True\<rparr>) = None"
  by (simp add: handleOpenSubmit_def Let_def currentQuestion_game_open game_open_fields
      trim_examples grade_failed_def grade_received_def grade_fallback_def xp_or_zero_def
      score_passes_def grade_request_of_def q_open_def)

text \<open>
  C4, amended. A rejected video-processing request, a rejected questions request and a
  rejected summary request set the view's error message, a non-empty text, and store or
  hand on no payload. A rejected grading request is presented in band, as the grading
  result with score 0, feedback \<open>Error grading answer.\<close> and 0 XP, with score, XP and the
  error field unchanged; a rejected chat request is presented in band, as an assistant
  message \<open>Sorry, I encountered an error. Please try again.\<close> appended after the user's
  message. In both of these the handler issues the same requests and ends in the same
  state as for a successful response with that content, so the failure is not
  distinguishable in state from such a success.
\<close>

theorem request_failures_as_presented:
  "(trim (url us) \<noteq> [] \<longrightarrow>
      handleSubmit (Inl err) us =
        (us\<lparr>url_loading := False, url_error := Some (process_error_message err)\<rparr>, None) \<and>
      process_error_message err \<noteq> []) \<and>
   error (fetchQuestions (Inl e) st) = Some ''Failed to load quiz questions. Try again later.'' \<and>
   questions (fetchQuestions (Inl e) st) = questions st \<and>
   summary_error (fetchSummary (Inl e) sst) =
     Some ''Failed to load summary. The video might not be fully processed yet.'' \<and>
   summaryData (fetchSummary (Inl e) sst) = summaryData sst \<and>
   handleOpenSubmit (Inl e) st =
     handleOpenSubmit
       (Inr (Some \<lparr>score_of = Some 0, feedback = Some ''Error grading answer.'',
                    xp_earned = Some 0\<rparr>)) st \<and>
   (trim (openAnswer st) \<noteq> [] \<and> \<not> grading st \<longrightarrow>
      (\<exists>st'. fst (handleOpenSubmit (Inl e) st) = Done st' \<and>
         gradeFeedback st' =
           Some \<lparr>score_of = Some 0, feedback = Some ''Error grading answer.'',
                 xp_earned = Some 0\<rparr> \<and>
         showResult st' \<and> score st' = score st \<and> xp st' = xp st \<and> error st' = error st)) \<and>
   handleSend (Inl e) videoId cst =
     handleSend
       (Inr (Some \<lparr>answer = Some ''Sorry, I encountered an error. Please try again.'',
                    response_sources = None\<rparr>)) videoId cst \<and>
   (trim (input cst) \<noteq> [] \<and> \<not> chat_loading cst \<longrightarrow>
      messages (fst (handleSend (Inl e) videoId cst)) =
        messages cst @
          [\<lparr>role = ''user'', content = Some (input cst), sources = None\<rparr>,
           \<lparr>role = ''assistant'',
            content = Some ''Sorry, I encountered an error. Please try again.'',
            sources = None\<rparr>])"
proof -
  have nonempty: "process_error_message err \<noteq> []"
    by (simp add: process_error_message_def split: option.splits)
  have process: "handleSubmit (Inl err) us =
        (us\<lparr>url_loading := False, url_error := Some (process_error_message err)\<rparr>, None)"
    if "trim (url us) \<noteq> []"
    using that by (simp add: handleSubmit_def Let_def)
  have same_grade: "grade_received grade_fallback s = grade_failed s" for s
    by (simp add: grade_received_def grade_failed_def grade_fallback_def xp_or_zero_def
        score_passes_def Let_def)
  have grade_eq: "handleOpenSubmit (Inl e) st = handleOpenSubmit (Inr (Some grade_fallback)) st"
    by (simp add: handleOpenSubmit_def Let_def same_grade split: option.splits)
  have grade: "\<exists>st'. fst (handleOpenSubmit (Inl e) st) = Done st' \<and>
         gradeFeedback st' = Some grade_fallback \<and>
         showResult st' \<and> score st' = score st \<and> xp st' = xp st \<and> error st' = error st"
    if "trim (openAnswer st) \<noteq> []" and "\<not> grading st"
    using that
    by (simp add: handleOpenSubmit_def Let_def grade_failed_def split: option.splits)
  have chat_eq: "handleSend (Inl e) videoId cst =
     handleSend
       (Inr (Some \<lparr>answer = Some ''Sorry, I encountered an error. Please try again.'',
                    response_sources = None\<rparr>)) videoId cst"
    by (simp add: handleSend_def Let_def chat_failed_def chat_received_def)
  have chat: "messages (fst (handleSend (Inl e) videoId cst)) =
        messages cst @
          [\<lparr>role = ''user'', content = Some (input cst), sources = None\<rparr>,
           \<lparr>role = ''assistant'',
            content = Some ''Sorry, I encountered an error. Please try again.'',
            sources = None\<rparr>]"
    if "trim (input cst) \<noteq> []" and "\<not> chat_loading cst"
    using that by (simp add: handleSend_def Let_def chat_failed_def)
  have fetches:
    "error (fetchQuestions (Inl e) st) = Some ''Failed to load quiz questions. Try again later.''"
    "questions (fetchQuestions (Inl e) st) = questions st"
    "summary_error (fetchSummary (Inl e) sst) =
       Some ''Failed to load summary. The video might not be fully processed yet.''"
    "summaryData (fetchSummary (Inl e) sst) = summaryData sst"
    by (simp_all add: fetchQuestions_def fetchSummary_def)
  show ?thesis
    using nonempty process grade_eq grade chat_eq chat fetches
    unfolding grade_fallback_def by blast
qed

theorem request_failures_as_presented_witness:
  "trim (url url0) \<noteq> [] \<and>
   handleSubmit
     (Inl \<lparr>err_code = None,
           err_response = Some \<lparr>resp_detail = Some ''No transcript available.'',
                                resp_status = 400\<rparr>,
           err_request = True, err_message = Some ''Request failed with status code 400''\<rparr>)
     url0 =
     (url0\<lparr>url_loading := False, url_error := Some ''No transcript available.''\<rparr>,
      None :: unit option) \<and>
   trim (openAnswer game_open) \<noteq> [] \<and> \<not> grading game_open \<and>
   (\<exists>st'. fst (handleOpenSubmit (Inl (RequestFailed ''timeout'')) game_open) = Done st' \<and>
      gradeFeedback st' =
        Some \<lparr>score_of = Some 0, feedback = Some ''Error grading answer.'',
              xp_earned = Some 0\<rparr> \<and>
      xp st' = 0) \<and>
   trim (input chat0) \<noteq> [] \<and> \<not> chat_loading chat0 \<and>
   length (messages (fst (handleSend (Inl (RequestFailed ''timeout'')) ''vid'' chat0))) = 3"
proof -
  let ?err = "\<lparr>err_code = None,
           err_response = Some \<lparr>resp_detail = Some ''No transcript available.'',
                                resp_status = 400\<rparr>,
           err_request = True, err_message = Some ''Request failed with status code 400''\<rparr>"
  have a: "trim (url url0) \<noteq> []"
    by (simp add: url0_def trim_examples)
  have m: "process_error_message ?err = ''No transcript available.''"
    by (simp add: process_error_message_def)
  have b: "trim (openAnswer game_open) \<noteq> []" "\<not> grading game_open" "xp game_open = 0"
    by (simp_all add: game_open_fields trim_examples)
  have c: "trim (input chat0) \<noteq> []"
    by (simp add: chat0_def trim_examples)
  have d: "\<not> chat_loading chat0" "length (messages chat0) = 1"
    by (simp_all add: chat0_def)
  note t = request_failures_as_presented [where ?'a = unit and us = url0 and err = ?err
      and e = "RequestFailed ''timeout''" and st = game_open and sst = summary0
      and cst = chat0 and videoId = "''vid''"]
  have p: "handleSubmit (Inl ?err) url0 =
     (url0\<lparr>url_loading := False, url_error := Some ''No transcript available.''\<rparr>,
      None :: unit option)"
    using t [THEN conjunct1] a m by simp
  note tg = t [THEN conjunct2, THEN conjunct2, THEN conjunct2, THEN conjunct2,
      THEN conjunct2, THEN conjunct2, THEN conjunct1]
  note tc = t [THEN conjunct2, THEN conjunct2, THEN conjunct2, THEN conjunct2,
      THEN conjunct2, THEN conjunct2, THEN conjunct2, THEN conjunct2]
  have g: "\<exists>st'. fst (handleOpenSubmit (Inl (RequestFailed ''timeout'')) game_open) = Done st' \<and>
      gradeFeedback st' =
        Some \<lparr>score_of = Some 0, feedback = Some ''Error grading answer.'',
              xp_earned = Some 0\<rparr> \<and>
      xp st' = 0"
    using tg b by auto
  have h: "length (messages (fst (handleSend (Inl (RequestFailed ''timeout'')) ''vid'' chat0))) = 3"
    using tc c d by simp
  from a p b(1,2) g c d(1) h show ?thesis by blast
qed

text \<open>
  C5, as the spec states it, fails: a summary response whose overview is the empty string
  is not treated as a failure. No error is set and a summary is presented, with the
  placeholder text as its overview.
\<close>

theorem empty_overview_presented_as_summary:
  "summary_error
     (fetchSummary
        (Inr (Some \<lparr>body_overview = Some [], body_deep_concepts = Some [],
                     body_actionable_takeaways = Some []\<rparr>))
        summary0) = None \<and>
   summaryData
     (fetchSummary
        (Inr (Some \<lparr>body_overview = Some [], body_deep_concepts = Some [],
                     body_actionable_takeaways = Some []\<rparr>))
        summary0) =
     Some \<lparr>overview = ''No overview available.'', deep_concepts = [],
           actionable_takeaways = []\<rparr>"
  by (simp add: fetchSummary_def safeSummary_def overview_or_default_def summary0_def)

text \<open>
  C5, amended. A summary response is always presented as a loaded summary, without
  setting the error: a missing or empty overview is replaced by the placeholder
  \<open>No overview available.\<close> and any other overview is kept, so the overview presented is
  never empty; a missing deep-concepts or takeaways list is presented as the empty list
  and a present one, empty or not, is kept.
\<close>

theorem summary_response_presented_with_defaults:
  "fetchSummary
     (Inr (Some \<lparr>body_overview = ov, body_deep_concepts = dc,
                  body_actionable_takeaways = tk\<rparr>)) st =
     st\<lparr>summaryData :=
          Some \<lparr>overview =
                  (if ov = None \<or> ov = Some [] then ''No overview available.''
                   else case ov of Some s \<Rightarrow> s | None \<Rightarrow> []),
                deep_concepts = (case dc of None \<Rightarrow> [] | Some cs \<Rightarrow> cs),
                actionable_takeaways = (case tk of None \<Rightarrow> [] | Some ts \<Rightarrow> ts)\<rparr>,
        summary_loading := False\<rparr> \<and>
   summary_error (fetchSummary (Inr data) st) = summary_error st \<and>
   (\<exists>s. summaryData (fetchSummary (Inr data) st) = Some s \<and> overview s \<noteq> [])"
  by (auto simp add: fetchSummary_def safeSummary_def overview_or_default_def
      split: option.splits)


end
